theory Spec2Isabelle
  imports Main "HOL-Library.Word"
begin

section \<open>Student Portal API: authentication and authorization\<close>

text \<open>
  A shallow embedding of the authentication and authorization code of \<open>main.py\<close>:
  \<open>oid\<close>, \<open>create_token\<close>, \<open>get_current_user\<close>, \<open>require_role\<close>, \<open>register\<close>,
  \<open>login\<close>, \<open>create_course\<close> and \<open>create_assignment\<close>.

  Exceptions are values: a handler returns \<open>exn + 'a\<close>, with \<open>Inl\<close> the exception that
  leaves the function. Handlers that write to the database return the database as well.
  Time is an integer number of seconds, and a request reads the clock once (\<open>now\<close>).
  The clock, the identifier drawn by the database driver at an insert, and the two
  third-party libraries (PyJWT and passlib) are inputs of the model.
\<close>

subsection \<open>Exceptions\<close>

text \<open>
  \<open>HTTPException status detail\<close> is FastAPI's exception, \<open>ExpiredSignatureError\<close> is
  PyJWT's, and \<open>Exception name\<close> stands for every other Python exception. All three are
  instances of Python's \<open>Exception\<close> class, which is what \<open>except Exception\<close> catches.
\<close>

datatype exn =
    HTTPException nat string
  | ExpiredSignatureError
  | Exception string

subsection \<open>Strings\<close>

text \<open>
  \<open>str.split(" ")\<close>: the string is cut at every single space; an empty string gives one
  empty piece, and two adjacent spaces give an empty piece between them.
\<close>

fun split_on :: "char \<Rightarrow> string \<Rightarrow> string list" where
  "split_on c [] = [[]]"
| "split_on c (x # xs) =
     (if x = c then [] # split_on c xs
      else (case split_on c xs of
              [] \<Rightarrow> [[x]]
            | y # ys \<Rightarrow> (x # y) # ys))"

text \<open>
  \<open>str.lower()\<close> on the characters a header can hold (Latin-1): the ASCII capitals and
  the accented capitals \<open>0xC0..0xDE\<close> without the multiplication sign \<open>0xD7\<close> move up
  by 32, every other character stays.
\<close>

definition lower_char :: "char \<Rightarrow> char" where
  "lower_char c =
     (let n = (of_char c :: nat)
      in if (65 \<le> n \<and> n \<le> 90) \<or> (192 \<le> n \<and> n \<le> 222 \<and> n \<noteq> 215)
         then char_of (n + 32) else c)"

definition lower :: "string \<Rightarrow> string" where
  "lower s = map lower_char s"

subsection \<open>Object identifiers\<close>

text \<open>
  A BSON \<open>ObjectId\<close> is twelve bytes, here a 96-bit word. \<open>str(ObjectId)\<close> is its 24
  lower-case hexadecimal digits; \<open>ObjectId(s)\<close> accepts a string of exactly 24
  hexadecimal digits of either case and raises \<open>InvalidId\<close> on anything else.
\<close>

type_synonym objectid = "96 word"

definition hex_char :: "nat \<Rightarrow> char" where
  "hex_char d = (if d < 10 then char_of (48 + d) else char_of (87 + d))"

fun hex_digits :: "nat \<Rightarrow> nat \<Rightarrow> string" where
  "hex_digits 0 n = []"
| "hex_digits (Suc k) n = hex_digits k (n div 16) @ [hex_char (n mod 16)]"

definition str_oid :: "objectid \<Rightarrow> string" where
  "str_oid i = hex_digits 24 (unat i)"

definition hex_val :: "char \<Rightarrow> nat option" where
  "hex_val c =
     (let n = (of_char c :: nat)
      in if 48 \<le> n \<and> n \<le> 57 then Some (n - 48)
         else if 97 \<le> n \<and> n \<le> 102 then Some (n - 87)
         else if 65 \<le> n \<and> n \<le> 70 then Some (n - 55)
         else None)"

fun parse_hex :: "nat \<Rightarrow> string \<Rightarrow> nat option" where
  "parse_hex acc [] = Some acc"
| "parse_hex acc (c # cs) =
     (case hex_val c of
        None \<Rightarrow> None
      | Some d \<Rightarrow> parse_hex (16 * acc + d) cs)"

definition ObjectId :: "string \<Rightarrow> exn + objectid" where
  "ObjectId s =
     (if length s = 24
      then (case parse_hex 0 s of
              None \<Rightarrow> Inl (Exception ''InvalidId'')
            | Some n \<Rightarrow> Inr (of_nat n))
      else Inl (Exception ''InvalidId''))"

text \<open>\<open>oid\<close>: every exception of the constructor becomes a 400.\<close>

definition oid :: "string \<Rightarrow> exn + objectid" where
  "oid id_str =
     (case ObjectId id_str of
        Inr i \<Rightarrow> Inr i
      | Inl e \<Rightarrow> Inl (HTTPException 400 ''Invalid id format''))"

subsection \<open>Documents and the database\<close>

text \<open>
  A stored document is a dictionary with an \<open>_id\<close> and the keys of its schema
  (\<open>schemas.py\<close>); a key that the code reads with \<open>.get\<close> may be absent, which is
  \<open>None\<close> here. The role of a stored account is a string, as the store has no schema.
\<close>

record user_doc =
  u_id :: objectid
  name :: "string option"
  email :: "string option"
  password_hash :: "string option"
  role :: "string option"
  approved :: "bool option"
  created_at :: "int option"
  updated_at :: "int option"

record course_doc =
  c_id :: objectid
  title :: string
  description :: "string option"
  subject :: "string option"
  teacher_id :: "string option"
  c_created_at :: int
  c_updated_at :: int

record assignment_doc =
  a_id :: objectid
  course_id :: string
  a_title :: string
  a_description :: "string option"
  due_date :: "int option"
  a_created_at :: int
  a_updated_at :: int

record database =
  user :: "user_doc list"
  course :: "course_doc list"
  assignment :: "assignment_doc list"

text \<open>
  \<open>find_one\<close> returns the first matching document of the collection, or \<open>None\<close>. A
  document it returns has an \<open>_id\<close>, so it is never an empty dictionary, and the code's
  \<open>if not user\<close> and \<open>if existing\<close> test for \<open>None\<close> only.
\<close>

definition find_user_by_email :: "database \<Rightarrow> string \<Rightarrow> user_doc option" where
  "find_user_by_email d e = find (\<lambda>u. email u = Some e) (user d)"

definition find_user_by_id :: "database \<Rightarrow> objectid \<Rightarrow> user_doc option" where
  "find_user_by_id d i = find (\<lambda>u. u_id u = i) (user d)"

definition find_course_by_id :: "database \<Rightarrow> objectid \<Rightarrow> course_doc option" where
  "find_course_by_id d i = find (\<lambda>c. c_id c = i) (course d)"

text \<open>
  \<open>insert_one\<close> appends the document; the store keeps \<open>_id\<close> unique and raises
  \<open>DuplicateKeyError\<close> otherwise.
\<close>

definition insert_user :: "database \<Rightarrow> user_doc \<Rightarrow> exn + database" where
  "insert_user d doc =
     (if u_id doc \<in> set (map u_id (user d)) then Inl (Exception ''DuplicateKeyError'')
      else Inr (d\<lparr>user := user d @ [doc]\<rparr>))"

definition insert_course :: "database \<Rightarrow> course_doc \<Rightarrow> exn + database" where
  "insert_course d doc =
     (if c_id doc \<in> set (map c_id (course d)) then Inl (Exception ''DuplicateKeyError'')
      else Inr (d\<lparr>course := course d @ [doc]\<rparr>))"

definition insert_assignment :: "database \<Rightarrow> assignment_doc \<Rightarrow> exn + database" where
  "insert_assignment d doc =
     (if a_id doc \<in> set (map a_id (assignment d)) then Inl (Exception ''DuplicateKeyError'')
      else Inr (d\<lparr>assignment := assignment d @ [doc]\<rparr>))"

subsection \<open>Request and response models\<close>

datatype Role = student | teacher | admin

fun role_str :: "Role \<Rightarrow> string" where
  "role_str student = ''student''"
| "role_str teacher = ''teacher''"
| "role_str admin = ''admin''"

record RegisterRequest =
  reg_name :: string
  reg_email :: string
  reg_password :: string
  reg_role :: Role

record LoginRequest =
  login_email :: string
  login_password :: string

record TokenResponse =
  access_token :: string
  token_type :: string

record CourseCreate =
  cc_title :: string
  cc_description :: "string option"
  cc_subject :: "string option"

record AssignmentCreate =
  ac_course_id :: string
  ac_title :: string
  ac_description :: "string option"
  ac_due_date :: "int option"

subsection \<open>Configuration and libraries\<close>

record config =
  SECRET_KEY :: string
  JWT_EXP_MIN :: int

text \<open>The claims of a token: \<open>sub\<close>, \<open>role\<close> and \<open>exp\<close> (seconds).\<close>

record payload =
  p_sub :: "string option"
  p_role :: string
  p_exp :: int

text \<open>
  The third-party functions the code calls. \<open>jwt_decode token key now\<close> is
  \<open>jwt.decode(token, key, algorithms=["HS256"])\<close> run at time \<open>now\<close>; it and
  \<open>bcrypt.verify\<close> may raise. \<open>bcrypt_hash\<close> is \<open>bcrypt.hash\<close> with the salt of the call.
\<close>

record libs =
  jwt_encode :: "payload \<Rightarrow> string \<Rightarrow> string"
  jwt_decode :: "string \<Rightarrow> string \<Rightarrow> int \<Rightarrow> exn + payload"
  bcrypt_hash :: "string \<Rightarrow> exn + string"
  bcrypt_verify :: "string \<Rightarrow> string \<Rightarrow> exn + bool"

text \<open>
  What the code relies on from PyJWT for the token it issued with claims \<open>p\<close>: the compact
  serialisation has no space in it, before \<open>exp\<close> decoding with the same key gives the
  claims back, and after \<open>exp\<close> it raises \<open>ExpiredSignatureError\<close>. The instant \<open>exp\<close>
  itself is left open (PyJWT versions differ there).
\<close>

definition pyjwt_roundtrip :: "libs \<Rightarrow> string \<Rightarrow> payload \<Rightarrow> bool" where
  "pyjwt_roundtrip L key p \<longleftrightarrow>
     CHR '' '' \<notin> set (jwt_encode L p key) \<and>
     (\<forall>now. (now < p_exp p \<longrightarrow> jwt_decode L (jwt_encode L p key) key now = Inr p) \<and>
            (p_exp p < now \<longrightarrow>
               jwt_decode L (jwt_encode L p key) key now = Inl ExpiredSignatureError))"

text \<open>
  passlib's \<open>bcrypt.verify(secret, hash)\<close> parses the stored hash before it compares:
  a string that starts with none of the bcrypt identifiers is not a bcrypt hash and
  raises \<open>ValueError\<close>. The comparison proper is the parameter \<open>check\<close>.
\<close>

definition bcrypt_ident_values :: "string list" where
  "bcrypt_ident_values = [''$2$'', ''$2a$'', ''$2x$'', ''$2y$'', ''$2b$'']"

definition passlib_verify ::
  "(string \<Rightarrow> string \<Rightarrow> exn + bool) \<Rightarrow> string \<Rightarrow> string \<Rightarrow> exn + bool" where
  "passlib_verify check secret hash =
     (if list_ex (\<lambda>ident. take (length ident) hash = ident) bcrypt_ident_values
      then check secret hash
      else Inl (Exception ''ValueError''))"

subsection \<open>Auth helpers\<close>

definition token_payload :: "config \<Rightarrow> int \<Rightarrow> user_doc \<Rightarrow> payload" where
  "token_payload cfg now usr =
     \<lparr>p_sub = Some (str_oid (u_id usr)),
      p_role = (case role usr of None \<Rightarrow> ''student'' | Some r \<Rightarrow> r),
      p_exp = now + 60 * JWT_EXP_MIN cfg\<rparr>"

definition create_token :: "libs \<Rightarrow> config \<Rightarrow> int \<Rightarrow> user_doc \<Rightarrow> string" where
  "create_token L cfg now usr = jwt_encode L (token_payload cfg now usr) (SECRET_KEY cfg)"

text \<open>The body of the \<open>try\<close> block of \<open>get_current_user\<close>.\<close>

definition get_current_user_try ::
  "libs \<Rightarrow> config \<Rightarrow> int \<Rightarrow> database option \<Rightarrow> string \<Rightarrow> exn + user_doc" where
  "get_current_user_try L cfg now db authorization =
     (case split_on CHR '' '' authorization of
        [scheme, token] \<Rightarrow>
          if lower scheme \<noteq> ''bearer'' then Inl (Exception ''Invalid scheme'')
          else (case jwt_decode L token (SECRET_KEY cfg) now of
                  Inl e \<Rightarrow> Inl e
                | Inr pl \<Rightarrow>
                    (case p_sub pl of
                       None \<Rightarrow> Inl (Exception ''No sub in token'')
                     | Some user_id \<Rightarrow>
                         if user_id = [] then Inl (Exception ''No sub in token'')
                         else (case db of
                                 None \<Rightarrow> Inl (Exception ''Database unavailable'')
                               | Some d \<Rightarrow>
                                   (case oid user_id of
                                      Inl e \<Rightarrow> Inl e
                                    | Inr i \<Rightarrow>
                                        (case find_user_by_id d i of
                                           None \<Rightarrow> Inl (Exception ''User not found'')
                                         | Some usr \<Rightarrow> Inr usr)))))
      | _ \<Rightarrow> Inl (Exception ''ValueError''))"

text \<open>
  \<open>get_current_user\<close>: an absent or empty header is refused before the \<open>try\<close>; of the
  exceptions of the block, \<open>ExpiredSignatureError\<close> is caught first and every other one by
  \<open>except Exception\<close>.
\<close>

definition get_current_user ::
  "libs \<Rightarrow> config \<Rightarrow> int \<Rightarrow> database option \<Rightarrow> string option \<Rightarrow> exn + user_doc" where
  "get_current_user L cfg now db authorization =
     (case authorization of
        None \<Rightarrow> Inl (HTTPException 401 ''Missing Authorization header'')
      | Some a \<Rightarrow>
          if a = [] then Inl (HTTPException 401 ''Missing Authorization header'')
          else (case get_current_user_try L cfg now db a of
                  Inr usr \<Rightarrow> Inr usr
                | Inl ExpiredSignatureError \<Rightarrow> Inl (HTTPException 401 ''Token expired'')
                | Inl _ \<Rightarrow> Inl (HTTPException 401 ''Invalid token'')))"

definition require_role :: "user_doc \<Rightarrow> string list \<Rightarrow> exn + unit" where
  "require_role usr roles =
     (case role usr of
        None \<Rightarrow> Inl (HTTPException 403 ''Forbidden'')
      | Some r \<Rightarrow> if r \<notin> set roles then Inl (HTTPException 403 ''Forbidden'') else Inr ())"

subsection \<open>Auth endpoints\<close>

definition register ::
  "libs \<Rightarrow> config \<Rightarrow> int \<Rightarrow> objectid \<Rightarrow> database option \<Rightarrow> RegisterRequest
     \<Rightarrow> (exn + TokenResponse) \<times> database option" where
  "register L cfg now new_id db rq =
     (case db of
        None \<Rightarrow> (Inl (HTTPException 500 ''Database unavailable''), db)
      | Some d \<Rightarrow>
          if reg_role rq = admin
          then (Inl (HTTPException 400 ''Cannot self-register as admin''), db)
          else (case find_user_by_email d (reg_email rq) of
                  Some existing \<Rightarrow> (Inl (HTTPException 400 ''Email already registered''), db)
                | None \<Rightarrow>
                    (case bcrypt_hash L (reg_password rq) of
                       Inl e \<Rightarrow> (Inl e, db)
                     | Inr h \<Rightarrow>
                         (let user_doc =
                                \<lparr>u_id = new_id,
                                 name = Some (reg_name rq),
                                 email = Some (reg_email rq),
                                 password_hash = Some h,
                                 role = Some (role_str (reg_role rq)),
                                 approved = Some (reg_role rq = student),
                                 created_at = Some now,
                                 updated_at = Some now\<rparr>
                          in (case insert_user d user_doc of
                                Inl e \<Rightarrow> (Inl e, db)
                              | Inr d' \<Rightarrow>
                                  (Inr \<lparr>access_token = create_token L cfg now user_doc,
                                        token_type = ''bearer''\<rparr>,
                                   Some d'))))))"

definition login ::
  "libs \<Rightarrow> config \<Rightarrow> int \<Rightarrow> database option \<Rightarrow> LoginRequest \<Rightarrow> exn + TokenResponse" where
  "login L cfg now db rq =
     (case db of
        None \<Rightarrow> Inl (HTTPException 500 ''Database unavailable'')
      | Some d \<Rightarrow>
          (case find_user_by_email d (login_email rq) of
             None \<Rightarrow> Inl (HTTPException 401 ''Invalid credentials'')
           | Some usr \<Rightarrow>
               (case bcrypt_verify L (login_password rq)
                       (case password_hash usr of None \<Rightarrow> [] | Some h \<Rightarrow> h) of
                  Inl e \<Rightarrow> Inl e
                | Inr ok \<Rightarrow>
                    if \<not> ok then Inl (HTTPException 401 ''Invalid credentials'')
                    else if role usr \<noteq> Some ''admin''
                            \<and> \<not> (case approved usr of None \<Rightarrow> False | Some b \<Rightarrow> b)
                    then Inl (HTTPException 403 ''Account pending approval'')
                    else Inr \<lparr>access_token = create_token L cfg now usr,
                              token_type = ''bearer''\<rparr>)))"

subsection \<open>Teacher endpoints\<close>

text \<open>
  The handlers answer with \<open>serialize_doc(doc)\<close>, which renames \<open>_id\<close> to \<open>id\<close> and
  prints the dates; the model returns the inserted document itself.

  \<open>body.__dict__.get("teacher_id")\<close>: \<open>CourseCreate\<close> declares no such field, so the
  lookup is \<open>None\<close> for every body.
\<close>

definition body_teacher_id :: "CourseCreate \<Rightarrow> string option" where
  "body_teacher_id body = None"

definition create_course ::
  "int \<Rightarrow> objectid \<Rightarrow> database option \<Rightarrow> CourseCreate \<Rightarrow> user_doc
     \<Rightarrow> (exn + course_doc) \<times> database option" where
  "create_course now new_id db body current =
     (case db of
        None \<Rightarrow> (Inl (HTTPException 500 ''Database unavailable''), db)
      | Some d \<Rightarrow>
          (case require_role current [''teacher'', ''admin''] of
             Inl e \<Rightarrow> (Inl e, db)
           | Inr _ \<Rightarrow>
               (case role current of
                  None \<Rightarrow> (Inl (Exception ''KeyError''), db)
                | Some r \<Rightarrow>
                    (let doc =
                           \<lparr>c_id = new_id,
                            title = cc_title body,
                            description = cc_description body,
                            subject = cc_subject body,
                            teacher_id =
                              Some (if r = ''teacher'' then str_oid (u_id current)
                                    else (case body_teacher_id body of
                                            None \<Rightarrow> str_oid (u_id current)
                                          | Some t \<Rightarrow>
                                              if t = [] then str_oid (u_id current) else t)),
                            c_created_at = now,
                            c_updated_at = now\<rparr>
                     in (case insert_course d doc of
                           Inl e \<Rightarrow> (Inl e, db)
                         | Inr d' \<Rightarrow> (Inr doc, Some d'))))))"

definition create_assignment ::
  "int \<Rightarrow> objectid \<Rightarrow> database option \<Rightarrow> AssignmentCreate \<Rightarrow> user_doc
     \<Rightarrow> (exn + assignment_doc) \<times> database option" where
  "create_assignment now new_id db body current =
     (case db of
        None \<Rightarrow> (Inl (HTTPException 500 ''Database unavailable''), db)
      | Some d \<Rightarrow>
          (case require_role current [''teacher'', ''admin''] of
             Inl e \<Rightarrow> (Inl e, db)
           | Inr _ \<Rightarrow>
               (case oid (ac_course_id body) of
                  Inl e \<Rightarrow> (Inl e, db)
                | Inr ci \<Rightarrow>
                    (case find_course_by_id d ci of
                       None \<Rightarrow> (Inl (HTTPException 404 ''Course not found''), db)
                     | Some crs \<Rightarrow>
                         (case role current of
                            None \<Rightarrow> (Inl (Exception ''KeyError''), db)
                          | Some r \<Rightarrow>
                              if r = ''teacher''
                                 \<and> teacher_id crs \<noteq> Some (str_oid (u_id current))
                              then (Inl (HTTPException 403 ''Not your course''), db)
                              else (let doc =
                                          \<lparr>a_id = new_id,
                                           course_id = ac_course_id body,
                                           a_title = ac_title body,
                                           a_description = ac_description body,
                                           due_date = ac_due_date body,
                                           a_created_at = now,
                                           a_updated_at = now\<rparr>
                                    in (case insert_assignment d doc of
                                          Inl e \<Rightarrow> (Inl e, db)
                                        | Inr d' \<Rightarrow> (Inr doc, Some d'))))))))"

text \<open>
  \<open>current = Depends(get_current_user)\<close>: the framework runs \<open>get_current_user\<close> on the
  request's \<open>Authorization\<close> header and calls the handler with its result; an exception
  of the dependency ends the request before the handler runs.
\<close>

definition Depends_get_current_user ::
  "libs \<Rightarrow> config \<Rightarrow> int \<Rightarrow> database option \<Rightarrow> string option
     \<Rightarrow> (user_doc \<Rightarrow> (exn + 'a) \<times> database option) \<Rightarrow> (exn + 'a) \<times> database option" where
  "Depends_get_current_user L cfg now db authorization handler =
     (case get_current_user L cfg now db authorization of
        Inl e \<Rightarrow> (Inl e, db)
      | Inr current \<Rightarrow> handler current)"

subsection \<open>Test doubles for the libraries\<close>

text \<open>
  A token library that knows one token, \<open>''h.c.s''\<close>, carrying the claims \<open>p\<close>, and a
  password library whose hash of \<open>pw\<close> is \<open>''$2b$'' @ pw\<close>.
\<close>

definition stub_libs :: "payload \<Rightarrow> libs" where
  "stub_libs p =
     \<lparr>jwt_encode = (\<lambda>q k. ''h.c.s''),
      jwt_decode = (\<lambda>t k now.
         if t = ''h.c.s''
         then (if p_exp p \<le> now then Inl ExpiredSignatureError else Inr p)
         else Inl (Exception ''DecodeError'')),
      bcrypt_hash = (\<lambda>pw. Inr (''$2b$'' @ pw)),
      bcrypt_verify = passlib_verify (\<lambda>pw h. Inr (h = ''$2b$'' @ pw))\<rparr>"

definition cfg0 :: config where
  "cfg0 = \<lparr>SECRET_KEY = ''dev-secret-key-change-me'', JWT_EXP_MIN = 60\<rparr>"

text \<open>
  A store with a student, a teacher who is not yet approved, an administrator and an
  account whose document has no \<open>password_hash\<close>, and two courses.
\<close>

definition alice :: user_doc where
  "alice = \<lparr>u_id = 1, name = Some ''Alice'', email = Some ''alice@example.com'',
            password_hash = Some ''$2b$pw-alice'', role = Some ''student'',
            approved = Some True, created_at = Some 10, updated_at = Some 10\<rparr>"

definition tina :: user_doc where
  "tina = \<lparr>u_id = 2, name = Some ''Tina'', email = Some ''tina@example.com'',
           password_hash = Some ''$2b$pw-tina'', role = Some ''teacher'',
           approved = Some False, created_at = Some 20, updated_at = Some 20\<rparr>"

definition root :: user_doc where
  "root = \<lparr>u_id = 3, name = Some ''Administrator'', email = Some ''admin@portal.com'',
           password_hash = Some ''$2b$admin123'', role = Some ''admin'',
           approved = Some True, created_at = Some 0, updated_at = Some 0\<rparr>"

definition bob :: user_doc where
  "bob = \<lparr>u_id = 4, name = Some ''Bob'', email = Some ''bob@example.com'',
          password_hash = None, role = Some ''student'',
          approved = Some True, created_at = Some 30, updated_at = Some 30\<rparr>"

definition algebra :: course_doc where
  "algebra = \<lparr>c_id = 7, title = ''Algebra'', description = None, subject = None,
              teacher_id = Some (str_oid 2), c_created_at = 40, c_updated_at = 40\<rparr>"

definition biology :: course_doc where
  "biology = \<lparr>c_id = 8, title = ''Biology'', description = None, subject = None,
              teacher_id = Some (str_oid 9), c_created_at = 50, c_updated_at = 50\<rparr>"

definition db0 :: database where
  "db0 = \<lparr>user = [alice, tina, root, bob], course = [algebra, biology], assignment = []\<rparr>"

section \<open>Properties\<close>

subsection \<open>Object identifiers print and parse back\<close>

lemma hex_val_hex_char: "d < 16 \<Longrightarrow> hex_val (hex_char d) = Some d"
  by (auto simp: hex_val_def hex_char_def Let_def)

lemma parse_hex_append:
  "parse_hex acc (xs @ [c]) =
     (case parse_hex acc xs of
        None \<Rightarrow> None
      | Some a \<Rightarrow> (case hex_val c of None \<Rightarrow> None | Some d \<Rightarrow> Some (16 * a + d)))"
  by (induction xs arbitrary: acc) (auto split: option.splits)

lemma parse_hex_digits: "parse_hex 0 (hex_digits k n) = Some (n mod 16 ^ k)"
proof (induction k arbitrary: n)
  case 0
  show ?case by simp
next
  case (Suc k)
  have "16 * (n div 16 mod 16 ^ k) + n mod 16 = n mod (16 * 16 ^ k)"
    by (simp add: mod_mult2_eq)
  then show ?case
    by (simp add: parse_hex_append Suc hex_val_hex_char)
qed

lemma length_hex_digits: "length (hex_digits k n) = k"
  by (induction k arbitrary: n) auto

lemma ObjectId_str_oid: "ObjectId (str_oid i) = Inr i"
proof -
  have "unat i < 2 ^ 96"
    using unsigned_less [of i] by simp
  then have "unat i mod 16 ^ 24 = unat i"
    by simp
  then show ?thesis
    by (simp add: ObjectId_def str_oid_def length_hex_digits parse_hex_digits)
qed

lemma oid_str_oid: "oid (str_oid i) = Inr i"
  by (simp add: oid_def ObjectId_str_oid)

lemma str_oid_nonempty: "str_oid i \<noteq> []"
  using length_hex_digits [of 24 "unat i"] by (auto simp: str_oid_def)

subsection \<open>The header of an issued token\<close>

lemma split_on_no_sep: "c \<notin> set s \<Longrightarrow> split_on c s = [s]"
  by (induction s) auto

lemma split_on_bearer:
  "CHR '' '' \<notin> set t \<Longrightarrow> split_on CHR '' '' (''Bearer '' @ t) = [''Bearer'', t]"
  by (simp add: split_on_no_sep)

lemma lower_Bearer: "lower ''Bearer'' = ''bearer''"
  by code_simp

lemma find_user_by_id_u_id: "find_user_by_id d i = Some a \<Longrightarrow> u_id a = i"
  by (auto simp: find_user_by_id_def find_Some_iff)

lemma get_current_user_bearer:
  "get_current_user L cfg now db (Some (''Bearer '' @ t)) =
     (case get_current_user_try L cfg now db (''Bearer '' @ t) of
        Inr usr \<Rightarrow> Inr usr
      | Inl ExpiredSignatureError \<Rightarrow> Inl (HTTPException 401 ''Token expired'')
      | Inl _ \<Rightarrow> Inl (HTTPException 401 ''Invalid token''))"
  by (simp add: get_current_user_def)

lemma get_current_user_try_issued:
  assumes "pyjwt_roundtrip L (SECRET_KEY cfg) (token_payload cfg t0 usr)"
    and "now < t0 + 60 * JWT_EXP_MIN cfg"
  shows "get_current_user_try L cfg now db (''Bearer '' @ create_token L cfg t0 usr) =
           (case db of
              None \<Rightarrow> Inl (Exception ''Database unavailable'')
            | Some d \<Rightarrow>
                (case find_user_by_id d (u_id usr) of
                   None \<Rightarrow> Inl (Exception ''User not found'')
                 | Some a \<Rightarrow> Inr a))"
proof -
  let ?p = "token_payload cfg t0 usr"
  let ?t = "create_token L cfg t0 usr"
  from assms(1) have nosp: "CHR '' '' \<notin> set ?t"
    by (simp add: pyjwt_roundtrip_def create_token_def)
  have exp: "p_exp ?p = t0 + 60 * JWT_EXP_MIN cfg"
    by (simp add: token_payload_def)
  from assms have dec: "jwt_decode L ?t (SECRET_KEY cfg) now = Inr ?p"
    unfolding pyjwt_roundtrip_def create_token_def exp by blast
  have sub: "p_sub ?p = Some (str_oid (u_id usr))"
    by (simp add: token_payload_def)
  show ?thesis
    unfolding get_current_user_try_def split_on_bearer [OF nosp]
    by (simp add: lower_Bearer dec sub str_oid_nonempty oid_str_oid split: option.splits)
qed

lemma get_current_user_try_expired:
  assumes "pyjwt_roundtrip L (SECRET_KEY cfg) (token_payload cfg t0 usr)"
    and "t0 + 60 * JWT_EXP_MIN cfg < now"
  shows "get_current_user_try L cfg now db (''Bearer '' @ create_token L cfg t0 usr) =
           Inl ExpiredSignatureError"
proof -
  let ?p = "token_payload cfg t0 usr"
  let ?t = "create_token L cfg t0 usr"
  from assms(1) have nosp: "CHR '' '' \<notin> set ?t"
    by (simp add: pyjwt_roundtrip_def create_token_def)
  have exp: "p_exp ?p = t0 + 60 * JWT_EXP_MIN cfg"
    by (simp add: token_payload_def)
  from assms have dec: "jwt_decode L ?t (SECRET_KEY cfg) now = Inl ExpiredSignatureError"
    unfolding pyjwt_roundtrip_def create_token_def exp by blast
  show ?thesis
    unfolding get_current_user_try_def split_on_bearer [OF nosp]
    by (simp add: lower_Bearer dec)
qed

subsection \<open>The test doubles\<close>

lemma stub_libs_roundtrip: "pyjwt_roundtrip (stub_libs p) key p"
  by (simp add: pyjwt_roundtrip_def stub_libs_def)

lemma stub_create_token: "create_token (stub_libs p) cfg t0 usr = ''h.c.s''"
  by (simp add: create_token_def stub_libs_def)

lemma cfg0_exp: "t0 + 60 * JWT_EXP_MIN cfg0 = t0 + 3600"
  by (simp add: cfg0_def)

lemma db0_by_id:
  "find_user_by_id db0 1 = Some alice" "find_user_by_id db0 2 = Some tina"
  "find_user_by_id db0 3 = Some root" "find_user_by_id db0 4 = Some bob"
  by (simp_all add: find_user_by_id_def db0_def alice_def tina_def root_def bob_def)

lemma db0_by_email:
  "find_user_by_email db0 ''alice@example.com'' = Some alice"
  "find_user_by_email db0 ''tina@example.com'' = Some tina"
  "find_user_by_email db0 ''admin@portal.com'' = Some root"
  "find_user_by_email db0 ''bob@example.com'' = Some bob"
  "find_user_by_email db0 ''carol@example.com'' = None"
  by (simp_all add: find_user_by_email_def db0_def alice_def tina_def root_def bob_def)

lemma lower_Basic: "lower ''Basic'' = ''basic''"
  by code_simp

lemma stub_verify:
  "bcrypt_verify (stub_libs p) pw (''$2b$'' @ h) = Inr (h = pw)"
  by (simp add: stub_libs_def passlib_verify_def bcrypt_ident_values_def)

lemma stub_verify_empty:
  "bcrypt_verify (stub_libs p) pw [] = Inl (Exception ''ValueError'')"
  by (simp add: stub_libs_def passlib_verify_def bcrypt_ident_values_def)

lemma str_oid_inject:
  assumes "str_oid i = str_oid j"
  shows "i = j"
proof -
  have "Inr i = ObjectId (str_oid i)"
    by (simp only: ObjectId_str_oid)
  also have "\<dots> = ObjectId (str_oid j)"
    by (simp only: assms)
  also have "\<dots> = Inr j"
    by (simp only: ObjectId_str_oid)
  finally show ?thesis
    by (simp only: sum.inject)
qed

lemma db0_course_by_id:
  "find_course_by_id db0 7 = Some algebra" "find_course_by_id db0 8 = Some biology"
  by (simp_all add: find_course_by_id_def db0_def algebra_def biology_def)

lemma stub_hash: "bcrypt_hash (stub_libs p) pw = Inr (''$2b$'' @ pw)"
  by (simp add: stub_libs_def)

lemma db0_user_ids: "map u_id (user db0) = [1, 2, 3, 4]"
  by (simp add: db0_def alice_def tina_def root_def bob_def)

lemma db0_course_ids: "map c_id (course db0) = [7, 8]"
  by (simp add: db0_def algebra_def biology_def)

lemma db0_assignment: "assignment db0 = []"
  by (simp add: db0_def)

subsection \<open>An exception of the password library leaves \<open>login\<close>\<close>

lemma login_verify_raises:
  assumes "find_user_by_email d (login_email rq) = Some usr"
    and "bcrypt_verify L (login_password rq)
           (case password_hash usr of None \<Rightarrow> [] | Some h \<Rightarrow> h) = Inl e"
  shows "login L cfg now (Some d) rq = Inl e"
  using assms by (simp add: login_def)

section \<open>The claims\<close>

text \<open>
  C1. Round trip of issuing and verifying: for every account \<open>usr\<close> (every id and role),
  the token that \<open>create_token\<close> issues for it at \<open>t0\<close>, presented as
  \<open>Bearer <token>\<close> before its expiry while the store still holds an account with that
  id, makes \<open>get_current_user\<close> return that stored account, whose id is the issued id.
\<close>

theorem token_roundtrip:
  assumes "pyjwt_roundtrip L (SECRET_KEY cfg) (token_payload cfg t0 usr)"
    and "now < t0 + 60 * JWT_EXP_MIN cfg"
    and "find_user_by_id d (u_id usr) = Some a"
  shows "get_current_user L cfg now (Some d)
           (Some (''Bearer '' @ create_token L cfg t0 usr)) = Inr a
         \<and> u_id a = u_id usr"
  using assms(3) find_user_by_id_u_id [OF assms(3)]
  unfolding get_current_user_bearer get_current_user_try_issued [OF assms(1,2)]
  by simp

theorem token_roundtrip_witness:
  "pyjwt_roundtrip (stub_libs (token_payload cfg0 1000 alice)) (SECRET_KEY cfg0)
     (token_payload cfg0 1000 alice)
   \<and> (2000::int) < 1000 + 60 * JWT_EXP_MIN cfg0
   \<and> find_user_by_id db0 (u_id alice) = Some alice
   \<and> get_current_user (stub_libs (token_payload cfg0 1000 alice)) cfg0 2000 (Some db0)
       (Some ''Bearer h.c.s'') = Inr alice"
proof -
  let ?L = "stub_libs (token_payload cfg0 1000 alice)"
  have h1: "pyjwt_roundtrip ?L (SECRET_KEY cfg0) (token_payload cfg0 1000 alice)"
    by (rule stub_libs_roundtrip)
  have h2: "(2000::int) < 1000 + 60 * JWT_EXP_MIN cfg0"
    by (simp add: cfg0_def)
  have h3: "find_user_by_id db0 (u_id alice) = Some alice"
    using db0_by_id(1) by (simp add: alice_def)
  show ?thesis
    using h1 h2 h3 token_roundtrip [OF h1 h2 h3] by (simp add: stub_create_token)
qed

text \<open>
  C8. An issued token presented after its expiry is refused with 401 \<open>Token expired\<close>,
  the code's expired-credential outcome, and with nothing else: the outcome is the same
  whether the store is available, and whether the account still exists.
\<close>

theorem expired_token_rejected:
  assumes "pyjwt_roundtrip L (SECRET_KEY cfg) (token_payload cfg t0 usr)"
    and "t0 + 60 * JWT_EXP_MIN cfg < now"
  shows "get_current_user L cfg now db
           (Some (''Bearer '' @ create_token L cfg t0 usr)) =
         Inl (HTTPException 401 ''Token expired'')"
  unfolding get_current_user_bearer get_current_user_try_expired [OF assms]
  by simp

theorem expired_token_rejected_witness:
  "pyjwt_roundtrip (stub_libs (token_payload cfg0 1000 alice)) (SECRET_KEY cfg0)
     (token_payload cfg0 1000 alice)
   \<and> (1000::int) + 60 * JWT_EXP_MIN cfg0 < 5000
   \<and> get_current_user (stub_libs (token_payload cfg0 1000 alice)) cfg0 5000 (Some db0)
       (Some ''Bearer h.c.s'') = Inl (HTTPException 401 ''Token expired'')"
proof -
  let ?L = "stub_libs (token_payload cfg0 1000 alice)"
  have h1: "pyjwt_roundtrip ?L (SECRET_KEY cfg0) (token_payload cfg0 1000 alice)"
    by (rule stub_libs_roundtrip)
  have h2: "(1000::int) + 60 * JWT_EXP_MIN cfg0 < 5000"
    by (simp add: cfg0_def)
  show ?thesis
    using h1 h2 expired_token_rejected [OF h1 h2, of "Some db0"]
    by (simp add: stub_create_token)
qed

text \<open>
  C2. A login whose email resolves to an account and whose password verifies against the
  stored hash is refused with 403 \<open>Account pending approval\<close> when the role is not
  \<open>admin\<close> and the account is not approved (an absent \<open>approved\<close> key counts as
  false); otherwise it returns one token response, holding the token issued for that
  account. \<open>login\<close> does not write to the store.
\<close>

theorem login_verified:
  assumes "find_user_by_email d (login_email rq) = Some usr"
    and "bcrypt_verify L (login_password rq)
           (case password_hash usr of None \<Rightarrow> [] | Some h \<Rightarrow> h) = Inr True"
  shows "login L cfg now (Some d) rq =
           (if role usr \<noteq> Some ''admin'' \<and> approved usr \<noteq> Some True
            then Inl (HTTPException 403 ''Account pending approval'')
            else Inr \<lparr>access_token = create_token L cfg now usr, token_type = ''bearer''\<rparr>)"
  using assms by (auto simp: login_def split: option.splits)

theorem login_verified_witness:
  "find_user_by_email db0 ''tina@example.com'' = Some tina
   \<and> bcrypt_verify (stub_libs (token_payload cfg0 100 tina)) ''pw-tina'' ''$2b$pw-tina'' = Inr True
   \<and> login (stub_libs (token_payload cfg0 100 tina)) cfg0 100 (Some db0)
        \<lparr>login_email = ''tina@example.com'', login_password = ''pw-tina''\<rparr> =
      Inl (HTTPException 403 ''Account pending approval'')
   \<and> find_user_by_email db0 ''alice@example.com'' = Some alice
   \<and> bcrypt_verify (stub_libs (token_payload cfg0 100 tina)) ''pw-alice'' ''$2b$pw-alice'' = Inr True
   \<and> login (stub_libs (token_payload cfg0 100 tina)) cfg0 100 (Some db0)
        \<lparr>login_email = ''alice@example.com'', login_password = ''pw-alice''\<rparr> =
      Inr \<lparr>access_token = ''h.c.s'', token_type = ''bearer''\<rparr>"
proof -
  let ?L = "stub_libs (token_payload cfg0 100 tina)"
  let ?rq = "\<lparr>login_email = ''tina@example.com'', login_password = ''pw-tina''\<rparr>"
  let ?rq' = "\<lparr>login_email = ''alice@example.com'', login_password = ''pw-alice''\<rparr>"
  have v: "bcrypt_verify ?L ''pw-tina'' ''$2b$pw-tina'' = Inr True"
    using stub_verify [of _ "''pw-tina''" "''pw-tina''"] by simp
  have v': "bcrypt_verify ?L ''pw-alice'' ''$2b$pw-alice'' = Inr True"
    using stub_verify [of _ "''pw-alice''" "''pw-alice''"] by simp
  have h1: "find_user_by_email db0 (login_email ?rq) = Some tina"
    by (simp add: db0_by_email)
  have h2: "bcrypt_verify ?L (login_password ?rq)
              (case password_hash tina of None \<Rightarrow> [] | Some h \<Rightarrow> h) = Inr True"
    using v by (simp add: tina_def)
  have h1': "find_user_by_email db0 (login_email ?rq') = Some alice"
    by (simp add: db0_by_email)
  have h2': "bcrypt_verify ?L (login_password ?rq')
              (case password_hash alice of None \<Rightarrow> [] | Some h \<Rightarrow> h) = Inr True"
    using v' by (simp add: alice_def)
  have t: "role tina = Some ''teacher''" "approved tina = Some False"
    by (simp_all add: tina_def)
  have a: "approved alice = Some True"
    by (simp add: alice_def)
  show ?thesis
    using login_verified [OF h1 h2, of cfg0 100] login_verified [OF h1' h2', of cfg0 100]
      v v' t a
    by (simp add: db0_by_email stub_create_token)
qed

text \<open>
  C4. A login with an email that is not in the store, and a login with an email that is
  in the store but a password that does not verify, end in the same exception: 401
  \<open>Invalid credentials\<close>.
\<close>

theorem login_failures_indistinguishable:
  assumes "find_user_by_email d1 (login_email rq1) = None"
    and "find_user_by_email d2 (login_email rq2) = Some usr"
    and "bcrypt_verify L (login_password rq2)
           (case password_hash usr of None \<Rightarrow> [] | Some h \<Rightarrow> h) = Inr False"
  shows "login L cfg now1 (Some d1) rq1 = Inl (HTTPException 401 ''Invalid credentials'')
         \<and> login L cfg now2 (Some d2) rq2 = Inl (HTTPException 401 ''Invalid credentials'')"
  using assms by (simp add: login_def)

theorem login_failures_indistinguishable_witness:
  "find_user_by_email db0 ''carol@example.com'' = None
   \<and> find_user_by_email db0 ''alice@example.com'' = Some alice
   \<and> bcrypt_verify (stub_libs (token_payload cfg0 100 alice)) ''guess'' ''$2b$pw-alice''
       = Inr False
   \<and> login (stub_libs (token_payload cfg0 100 alice)) cfg0 100 (Some db0)
        \<lparr>login_email = ''carol@example.com'', login_password = ''guess''\<rparr> =
      Inl (HTTPException 401 ''Invalid credentials'')
   \<and> login (stub_libs (token_payload cfg0 100 alice)) cfg0 100 (Some db0)
        \<lparr>login_email = ''alice@example.com'', login_password = ''guess''\<rparr> =
      Inl (HTTPException 401 ''Invalid credentials'')"
proof -
  let ?L = "stub_libs (token_payload cfg0 100 alice)"
  let ?rq1 = "\<lparr>login_email = ''carol@example.com'', login_password = ''guess''\<rparr>"
  let ?rq2 = "\<lparr>login_email = ''alice@example.com'', login_password = ''guess''\<rparr>"
  have v: "bcrypt_verify ?L ''guess'' ''$2b$pw-alice'' = Inr False"
    using stub_verify [of _ "''guess''" "''pw-alice''"] by simp
  have h1: "find_user_by_email db0 (login_email ?rq1) = None"
    by (simp add: db0_by_email)
  have h2: "find_user_by_email db0 (login_email ?rq2) = Some alice"
    by (simp add: db0_by_email)
  have h3: "bcrypt_verify ?L (login_password ?rq2)
              (case password_hash alice of None \<Rightarrow> [] | Some h \<Rightarrow> h) = Inr False"
    using v by (simp add: alice_def)
  show ?thesis
    using login_failures_indistinguishable [OF h1 h2 h3, of cfg0 100 100] v
    by (simp add: db0_by_email)
qed

text \<open>
  C6. A registration as student or teacher with an email that is already in the store
  is refused with 400 \<open>Email already registered\<close>, the code's conflict error, and the
  store it leaves is the store it found: the existing account is unchanged, nothing is
  inserted, and no token is returned. (A request with role \<open>admin\<close> is refused before
  the email is looked up; that is C3.)
\<close>

theorem register_conflict:
  assumes "reg_role rq \<noteq> admin"
    and "find_user_by_email d (reg_email rq) = Some existing"
  shows "register L cfg now new_id (Some d) rq =
           (Inl (HTTPException 400 ''Email already registered''), Some d)"
  using assms by (simp add: register_def)

theorem register_conflict_witness:
  "reg_role \<lparr>reg_name = ''Al'', reg_email = ''alice@example.com'', reg_password = ''x'',
             reg_role = teacher\<rparr> \<noteq> admin
   \<and> find_user_by_email db0 ''alice@example.com'' = Some alice
   \<and> register (stub_libs (token_payload cfg0 100 alice)) cfg0 100 50 (Some db0)
        \<lparr>reg_name = ''Al'', reg_email = ''alice@example.com'', reg_password = ''x'',
          reg_role = teacher\<rparr> =
      (Inl (HTTPException 400 ''Email already registered''), Some db0)"
proof -
  let ?rq = "\<lparr>reg_name = ''Al'', reg_email = ''alice@example.com'', reg_password = ''x'',
              reg_role = teacher\<rparr>"
  have h1: "reg_role ?rq \<noteq> admin"
    by simp
  have h2: "find_user_by_email db0 (reg_email ?rq) = Some alice"
    by (simp add: db0_by_email)
  show ?thesis
    using register_conflict [OF h1 h2] by (simp add: db0_by_email)
qed

text \<open>
  C10, as amended. An absent (or empty) \<open>Authorization\<close> header is refused with 401
  \<open>Missing Authorization header\<close>. A header that is present but is not a bearer scheme
  followed by one token is refused with 401 \<open>Invalid token\<close>, the outcome of every other
  invalid credential: the \<open>Invalid scheme\<close> exception is raised inside the \<open>try\<close> block
  and caught by \<open>except Exception\<close>.
\<close>

theorem header_failures:
  "get_current_user L cfg now db None = Inl (HTTPException 401 ''Missing Authorization header'')
   \<and> get_current_user L cfg now db (Some []) =
       Inl (HTTPException 401 ''Missing Authorization header'')
   \<and> (a \<noteq> [] \<and> (\<forall>scheme token. split_on CHR '' '' a = [scheme, token]
                     \<longrightarrow> lower scheme \<noteq> ''bearer'') \<longrightarrow>
       get_current_user L cfg now db (Some a) = Inl (HTTPException 401 ''Invalid token''))"
proof -
  have absent: "get_current_user L cfg now db None =
                  Inl (HTTPException 401 ''Missing Authorization header'')"
    by (simp add: get_current_user_def)
  have empty: "get_current_user L cfg now db (Some []) =
                 Inl (HTTPException 401 ''Missing Authorization header'')"
    by (simp add: get_current_user_def)
  have other: "get_current_user L cfg now db (Some a) =
                 Inl (HTTPException 401 ''Invalid token'')"
    if ne: "a \<noteq> []"
      and sch: "\<forall>scheme token. split_on CHR '' '' a = [scheme, token]
                  \<longrightarrow> lower scheme \<noteq> ''bearer''"
  proof -
    have "\<exists>e. get_current_user_try L cfg now db a = Inl (Exception e)"
      using sch by (auto simp: get_current_user_try_def split: list.splits)
    then show ?thesis
      using ne by (auto simp: get_current_user_def)
  qed
  from absent empty other show ?thesis
    by blast
qed

theorem header_failures_witness:
  "''Basic h.c.s'' \<noteq> []
   \<and> split_on CHR '' '' ''Basic h.c.s'' = [''Basic'', ''h.c.s'']
   \<and> lower ''Basic'' \<noteq> ''bearer''
   \<and> get_current_user (stub_libs (token_payload cfg0 1000 alice)) cfg0 2000 (Some db0)
        (Some ''Basic h.c.s'') = Inl (HTTPException 401 ''Invalid token'')
   \<and> get_current_user (stub_libs (token_payload cfg0 1000 alice)) cfg0 2000 (Some db0) None =
        Inl (HTTPException 401 ''Missing Authorization header'')"
proof -
  have sp: "split_on CHR '' '' ''Basic h.c.s'' = [''Basic'', ''h.c.s'']"
    by simp
  have lo: "lower ''Basic'' \<noteq> ''bearer''"
    by (simp add: lower_Basic)
  have h: "''Basic h.c.s'' \<noteq> [] \<and> (\<forall>scheme token.
             split_on CHR '' '' ''Basic h.c.s'' = [scheme, token] \<longrightarrow> lower scheme \<noteq> ''bearer'')"
    using lo by (simp only: sp) simp
  show ?thesis
    using header_failures [of "stub_libs (token_payload cfg0 1000 alice)" cfg0 2000 "Some db0"
        "''Basic h.c.s''"] h sp lo
    by blast
qed

text \<open>
  C10 as stated fails: the header \<open>Basic h.c.s\<close> is present with a scheme that is not
  \<open>bearer\<close>, and its outcome is \<open>Invalid token\<close>, not the missing-credential one.
\<close>

theorem header_counterexample:
  "get_current_user (stub_libs (token_payload cfg0 1000 alice)) cfg0 2000 (Some db0)
     (Some ''Basic h.c.s'') = Inl (HTTPException 401 ''Invalid token'')
   \<and> get_current_user (stub_libs (token_payload cfg0 1000 alice)) cfg0 2000 (Some db0)
     (Some ''Basic h.c.s'') \<noteq> Inl (HTTPException 401 ''Missing Authorization header'')"
  by (simp add: get_current_user_def get_current_user_try_def lower_Basic)

text \<open>
  C9. \<open>login\<close> calls \<open>bcrypt.verify\<close> outside any \<open>try\<close>, on the stored hash or on
  \<open>""\<close> when the document has none. passlib raises \<open>ValueError\<close> on a string that is
  not a bcrypt hash, so a login on such an account ends in that exception, not in 401.
\<close>

theorem login_missing_hash_raises:
  "login (stub_libs (token_payload cfg0 0 bob)) cfg0 0 (Some db0)
     \<lparr>login_email = ''bob@example.com'', login_password = ''secret''\<rparr> =
   Inl (Exception ''ValueError'')"
  by (simp add: login_def db0_by_email bob_def stub_verify_empty)

text \<open>
  C3. Registration dispatches on the requested role, with the store available. Role
  \<open>admin\<close>: 400 \<open>Cannot self-register as admin\<close> for every request, and the store is
  unchanged. Role \<open>student\<close>, for an email that is not yet in the store (hashing and the
  insert succeeding): the account is appended with \<open>approved = True\<close> and the response
  holds the token issued for it. Role \<open>teacher\<close>: the same with \<open>approved = False\<close>.
  \<open>Role\<close> has these three values only.
\<close>

theorem register_dispatch:
  "(reg_role rq = admin \<longrightarrow>
      register L cfg now new_id (Some d) rq =
        (Inl (HTTPException 400 ''Cannot self-register as admin''), Some d))
   \<and> (reg_role rq = student \<and> find_user_by_email d (reg_email rq) = None
        \<and> bcrypt_hash L (reg_password rq) = Inr h \<and> new_id \<notin> set (map u_id (user d)) \<longrightarrow>
      (let doc = \<lparr>u_id = new_id, name = Some (reg_name rq), email = Some (reg_email rq),
                   password_hash = Some h, role = Some ''student'', approved = Some True,
                   created_at = Some now, updated_at = Some now\<rparr>
       in register L cfg now new_id (Some d) rq =
            (Inr \<lparr>access_token = create_token L cfg now doc, token_type = ''bearer''\<rparr>,
             Some (d\<lparr>user := user d @ [doc]\<rparr>))))
   \<and> (reg_role rq = teacher \<and> find_user_by_email d (reg_email rq) = None
        \<and> bcrypt_hash L (reg_password rq) = Inr h \<and> new_id \<notin> set (map u_id (user d)) \<longrightarrow>
      (let doc = \<lparr>u_id = new_id, name = Some (reg_name rq), email = Some (reg_email rq),
                   password_hash = Some h, role = Some ''teacher'', approved = Some False,
                   created_at = Some now, updated_at = Some now\<rparr>
       in register L cfg now new_id (Some d) rq =
            (Inr \<lparr>access_token = create_token L cfg now doc, token_type = ''bearer''\<rparr>,
             Some (d\<lparr>user := user d @ [doc]\<rparr>))))"
proof (cases "reg_role rq")
  case student
  then show ?thesis
    by (simp add: register_def insert_user_def Let_def)
next
  case teacher
  then show ?thesis
    by (simp add: register_def insert_user_def Let_def)
next
  case admin
  then show ?thesis
    by (simp add: register_def)
qed

theorem register_dispatch_witness:
  "register (stub_libs (token_payload cfg0 100 alice)) cfg0 100 5 (Some db0)
     \<lparr>reg_name = ''Eve'', reg_email = ''eve@example.com'', reg_password = ''pw-eve'',
       reg_role = admin\<rparr> =
     (Inl (HTTPException 400 ''Cannot self-register as admin''), Some db0)
   \<and> find_user_by_email db0 ''carol@example.com'' = None
   \<and> bcrypt_hash (stub_libs (token_payload cfg0 100 alice)) ''pw-carol'' = Inr ''$2b$pw-carol''
   \<and> (5 :: objectid) \<notin> set (map u_id (user db0))
   \<and> register (stub_libs (token_payload cfg0 100 alice)) cfg0 100 5 (Some db0)
     \<lparr>reg_name = ''Carol'', reg_email = ''carol@example.com'', reg_password = ''pw-carol'',
       reg_role = student\<rparr> =
     (Inr \<lparr>access_token = ''h.c.s'', token_type = ''bearer''\<rparr>,
      Some (db0\<lparr>user := user db0 @
        [\<lparr>u_id = 5, name = Some ''Carol'', email = Some ''carol@example.com'',
          password_hash = Some ''$2b$pw-carol'', role = Some ''student'',
          approved = Some True, created_at = Some 100, updated_at = Some 100\<rparr>]\<rparr>))
   \<and> register (stub_libs (token_payload cfg0 100 alice)) cfg0 100 5 (Some db0)
     \<lparr>reg_name = ''Carol'', reg_email = ''carol@example.com'', reg_password = ''pw-carol'',
       reg_role = teacher\<rparr> =
     (Inr \<lparr>access_token = ''h.c.s'', token_type = ''bearer''\<rparr>,
      Some (db0\<lparr>user := user db0 @
        [\<lparr>u_id = 5, name = Some ''Carol'', email = Some ''carol@example.com'',
          password_hash = Some ''$2b$pw-carol'', role = Some ''teacher'',
          approved = Some False, created_at = Some 100, updated_at = Some 100\<rparr>]\<rparr>))"
proof -
  let ?L = "stub_libs (token_payload cfg0 100 alice)"
  have fresh: "(5 :: objectid) \<notin> set (map u_id (user db0))"
    by (simp add: db0_user_ids)
  have hash: "bcrypt_hash ?L ''pw-carol'' = Inr ''$2b$pw-carol''"
    by (simp add: stub_hash)
  have none: "find_user_by_email db0 ''carol@example.com'' = None"
    by (rule db0_by_email)
  show ?thesis
    using fresh hash none
      register_dispatch [of "\<lparr>reg_name = ''Eve'', reg_email = ''eve@example.com'',
          reg_password = ''pw-eve'', reg_role = admin\<rparr>" ?L cfg0 100 5 db0]
      register_dispatch [of "\<lparr>reg_name = ''Carol'', reg_email = ''carol@example.com'',
          reg_password = ''pw-carol'', reg_role = student\<rparr>" ?L cfg0 100 5 db0
          "''$2b$pw-carol''"]
      register_dispatch [of "\<lparr>reg_name = ''Carol'', reg_email = ''carol@example.com'',
          reg_password = ''pw-carol'', reg_role = teacher\<rparr>" ?L cfg0 100 5 db0
          "''$2b$pw-carol''"]
    by (simp add: stub_create_token Let_def)
qed

text \<open>
  C5. Authentication and the role check never read \<open>approved\<close>. For the token issued
  for an account, before its expiry, \<open>get_current_user\<close> returns the stored account
  whatever its \<open>approved\<close> value; \<open>require_role\<close> gives the same result when
  \<open>approved\<close> is changed, and passes exactly when the role is in the list; so the
  registration token of a teacher creates a course through \<open>POST /teacher/courses\<close>
  while the same account, not approved, is refused by \<open>login\<close> with 403.
\<close>

theorem approval_not_consulted:
  assumes "pyjwt_roundtrip L (SECRET_KEY cfg) (token_payload cfg t0 usr)"
    and "now < t0 + 60 * JWT_EXP_MIN cfg"
    and "find_user_by_id d (u_id usr) = Some a"
  shows "get_current_user L cfg now (Some d)
           (Some (''Bearer '' @ create_token L cfg t0 usr)) = Inr a
         \<and> require_role (a\<lparr>approved := b\<rparr>) roles = require_role a roles
         \<and> require_role a roles =
             (if role a \<in> Some ` set roles then Inr ()
              else Inl (HTTPException 403 ''Forbidden''))
         \<and> (role a = Some ''teacher'' \<and> new_id \<notin> set (map c_id (course d)) \<longrightarrow>
             (let doc = \<lparr>c_id = new_id, title = cc_title body,
                          description = cc_description body, subject = cc_subject body,
                          teacher_id = Some (str_oid (u_id a)),
                          c_created_at = now, c_updated_at = now\<rparr>
              in Depends_get_current_user L cfg now (Some d)
                   (Some (''Bearer '' @ create_token L cfg t0 usr))
                   (create_course now new_id (Some d) body) =
                 (Inr doc, Some (d\<lparr>course := course d @ [doc]\<rparr>))))
         \<and> (find_user_by_email d e = Some a \<and> role a \<noteq> Some ''admin''
              \<and> approved a = Some False
              \<and> bcrypt_verify L pw (case password_hash a of None \<Rightarrow> [] | Some h \<Rightarrow> h)
                  = Inr True \<longrightarrow>
             login L cfg now (Some d) \<lparr>login_email = e, login_password = pw\<rparr> =
               Inl (HTTPException 403 ''Account pending approval''))"
proof -
  have auth: "get_current_user L cfg now (Some d)
                (Some (''Bearer '' @ create_token L cfg t0 usr)) = Inr a"
    using assms(3)
    unfolding get_current_user_bearer get_current_user_try_issued [OF assms(1,2)]
    by simp
  have gate: "require_role a roles =
                (if role a \<in> Some ` set roles then Inr ()
                 else Inl (HTTPException 403 ''Forbidden''))"
    by (auto simp: require_role_def split: option.splits)
  have same: "require_role (a\<lparr>approved := b\<rparr>) roles = require_role a roles"
    by (simp add: require_role_def)
  have course: "role a = Some ''teacher'' \<and> new_id \<notin> set (map c_id (course d)) \<longrightarrow>
             (let doc = \<lparr>c_id = new_id, title = cc_title body,
                          description = cc_description body, subject = cc_subject body,
                          teacher_id = Some (str_oid (u_id a)),
                          c_created_at = now, c_updated_at = now\<rparr>
              in Depends_get_current_user L cfg now (Some d)
                   (Some (''Bearer '' @ create_token L cfg t0 usr))
                   (create_course now new_id (Some d) body) =
                 (Inr doc, Some (d\<lparr>course := course d @ [doc]\<rparr>)))"
    unfolding Depends_get_current_user_def auth
    by (simp add: create_course_def require_role_def insert_course_def Let_def)
  have login: "find_user_by_email d e = Some a \<and> role a \<noteq> Some ''admin''
              \<and> approved a = Some False
              \<and> bcrypt_verify L pw (case password_hash a of None \<Rightarrow> [] | Some h \<Rightarrow> h)
                  = Inr True \<longrightarrow>
             login L cfg now (Some d) \<lparr>login_email = e, login_password = pw\<rparr> =
               Inl (HTTPException 403 ''Account pending approval'')"
    by (simp add: login_def)
  from auth same gate course login show ?thesis
    by blast
qed

theorem approval_not_consulted_witness:
  "pyjwt_roundtrip (stub_libs (token_payload cfg0 1000 tina)) (SECRET_KEY cfg0)
     (token_payload cfg0 1000 tina)
   \<and> (2000::int) < 1000 + 60 * JWT_EXP_MIN cfg0
   \<and> find_user_by_id db0 (u_id tina) = Some tina
   \<and> approved tina = Some False
   \<and> get_current_user (stub_libs (token_payload cfg0 1000 tina)) cfg0 2000 (Some db0)
        (Some ''Bearer h.c.s'') = Inr tina
   \<and> require_role tina [''teacher'', ''admin''] = Inr ()
   \<and> Depends_get_current_user (stub_libs (token_payload cfg0 1000 tina)) cfg0 2000 (Some db0)
        (Some ''Bearer h.c.s'')
        (create_course 2000 100 (Some db0)
           \<lparr>cc_title = ''Chemistry'', cc_description = None, cc_subject = None\<rparr>) =
      (Inr \<lparr>c_id = 100, title = ''Chemistry'', description = None, subject = None,
             teacher_id = Some (str_oid 2), c_created_at = 2000, c_updated_at = 2000\<rparr>,
       Some (db0\<lparr>course := course db0 @
         [\<lparr>c_id = 100, title = ''Chemistry'', description = None, subject = None,
           teacher_id = Some (str_oid 2), c_created_at = 2000, c_updated_at = 2000\<rparr>]\<rparr>))
   \<and> login (stub_libs (token_payload cfg0 1000 tina)) cfg0 2000 (Some db0)
        \<lparr>login_email = ''tina@example.com'', login_password = ''pw-tina''\<rparr> =
      Inl (HTTPException 403 ''Account pending approval'')"
proof -
  let ?L = "stub_libs (token_payload cfg0 1000 tina)"
  let ?body = "\<lparr>cc_title = ''Chemistry'', cc_description = None, cc_subject = None\<rparr>"
  have h1: "pyjwt_roundtrip ?L (SECRET_KEY cfg0) (token_payload cfg0 1000 tina)"
    by (rule stub_libs_roundtrip)
  have h2: "(2000::int) < 1000 + 60 * JWT_EXP_MIN cfg0"
    by (simp add: cfg0_def)
  have h3: "find_user_by_id db0 (u_id tina) = Some tina"
    using db0_by_id(2) by (simp add: tina_def)
  have t: "u_id tina = 2" "role tina = Some ''teacher''" "approved tina = Some False"
    "password_hash tina = Some ''$2b$pw-tina''"
    by (simp_all add: tina_def)
  have v: "bcrypt_verify ?L ''pw-tina'' ''$2b$pw-tina'' = Inr True"
    using stub_verify [of _ "''pw-tina''" "''pw-tina''"] by simp
  have fresh: "(100 :: objectid) \<notin> set (map c_id (course db0))"
    by (simp add: db0_course_ids)
  show ?thesis
    using h1 h2 h3 t v fresh
      approval_not_consulted [OF h1 h2 h3, where roles = "[''teacher'', ''admin'']"
        and new_id = 100 and body = ?body and e = "''tina@example.com''"
        and pw = "''pw-tina''"]
    by (simp add: stub_create_token db0_by_email Let_def)
qed

text \<open>
  C7. \<open>require_role\<close> raises 403 \<open>Forbidden\<close> exactly when the account's role is not in
  the allowed list. In \<open>create_assignment\<close>, on an existing course: a role outside
  teacher and admin is refused with 403; a teacher is refused with 403
  \<open>Not your course\<close> when the course's \<open>teacher_id\<close> is not the teacher's own id; an
  admin is let through whatever the course's \<open>teacher_id\<close>, as is the owning teacher,
  and the assignment is inserted.
\<close>

theorem access_gate:
  assumes "oid (ac_course_id body) = Inr ci"
    and "find_course_by_id d ci = Some crs"
  shows "require_role current roles =
           (if role current \<in> Some ` set roles then Inr ()
            else Inl (HTTPException 403 ''Forbidden''))
         \<and> (role current \<notin> Some ` set [''teacher'', ''admin''] \<longrightarrow>
              create_assignment now new_id (Some d) body current =
                (Inl (HTTPException 403 ''Forbidden''), Some d))
         \<and> (role current = Some ''teacher''
              \<and> teacher_id crs \<noteq> Some (str_oid (u_id current)) \<longrightarrow>
              create_assignment now new_id (Some d) body current =
                (Inl (HTTPException 403 ''Not your course''), Some d))
         \<and> ((role current = Some ''admin''
               \<or> role current = Some ''teacher''
                  \<and> teacher_id crs = Some (str_oid (u_id current)))
              \<and> new_id \<notin> set (map a_id (assignment d)) \<longrightarrow>
              (let doc = \<lparr>a_id = new_id, course_id = ac_course_id body,
                           a_title = ac_title body, a_description = ac_description body,
                           due_date = ac_due_date body,
                           a_created_at = now, a_updated_at = now\<rparr>
               in create_assignment now new_id (Some d) body current =
                    (Inr doc, Some (d\<lparr>assignment := assignment d @ [doc]\<rparr>))))"
proof -
  have gate: "require_role current roles =
           (if role current \<in> Some ` set roles then Inr ()
            else Inl (HTTPException 403 ''Forbidden''))" for roles
    by (auto simp: require_role_def split: option.splits)
  show ?thesis
    using assms
    by (auto simp: gate create_assignment_def insert_assignment_def Let_def)
qed

theorem access_gate_witness:
  "oid (ac_course_id \<lparr>ac_course_id = str_oid 8, ac_title = ''Homework'',
         ac_description = None, ac_due_date = None\<rparr>) = Inr 8
   \<and> find_course_by_id db0 8 = Some biology
   \<and> teacher_id biology \<noteq> Some (str_oid (u_id tina))
   \<and> require_role alice [''teacher'', ''admin''] = Inl (HTTPException 403 ''Forbidden'')
   \<and> create_assignment 100 50 (Some db0)
        \<lparr>ac_course_id = str_oid 8, ac_title = ''Homework'',
          ac_description = None, ac_due_date = None\<rparr> tina =
      (Inl (HTTPException 403 ''Not your course''), Some db0)
   \<and> create_assignment 100 50 (Some db0)
        \<lparr>ac_course_id = str_oid 8, ac_title = ''Homework'',
          ac_description = None, ac_due_date = None\<rparr> root =
      (Inr \<lparr>a_id = 50, course_id = str_oid 8, a_title = ''Homework'',
             a_description = None, due_date = None, a_created_at = 100,
             a_updated_at = 100\<rparr>,
       Some (db0\<lparr>assignment := assignment db0 @
         [\<lparr>a_id = 50, course_id = str_oid 8, a_title = ''Homework'',
           a_description = None, due_date = None, a_created_at = 100,
           a_updated_at = 100\<rparr>]\<rparr>))"
proof -
  let ?body = "\<lparr>ac_course_id = str_oid 8, ac_title = ''Homework'',
                 ac_description = None, ac_due_date = None\<rparr>"
  have h1: "oid (ac_course_id ?body) = Inr 8"
    by (simp add: oid_str_oid)
  have h2: "find_course_by_id db0 8 = Some biology"
    by (rule db0_course_by_id)
  have "str_oid 9 \<noteq> str_oid (2 :: objectid)"
    using str_oid_inject [of 9 2] by auto
  then have other: "teacher_id biology \<noteq> Some (str_oid (u_id tina))"
    by (simp add: biology_def tina_def)
  have r: "role alice = Some ''student''" "role tina = Some ''teacher''"
    "role root = Some ''admin''"
    by (simp_all add: alice_def tina_def root_def)
  have fresh: "(50 :: objectid) \<notin> set (map a_id (assignment db0))"
    by (simp add: db0_assignment)
  show ?thesis
    using h1 h2 other r fresh
      access_gate [OF h1 h2, where current = alice and roles = "[''teacher'', ''admin'']"]
      access_gate [OF h1 h2, where current = tina and now = 100 and new_id = 50]
      access_gate [OF h1 h2, where current = root and now = 100 and new_id = 50]
    by (simp add: Let_def)
qed

end
